theory Spec2Isabelle
  imports Complex_Main "HOL-Library.AList"
begin

section \<open>InterHand3DDataset: data model\<close>

text \<open>
  The module \<^verbatim>\<open>mmpose/datasets/datasets/hand/interhand3d_dataset.py\<close> builds one
  record per annotated image and reports three evaluation metrics.  Every
  exception the Python code can raise is a value of \<open>error\<close>; a function that may
  raise returns \<open>error + 'a\<close> with \<open>Inl\<close> for the exception.

  Arrays of float32 and float64 are lists over \<open>real\<close>: arithmetic is exact, rounding
  is not modelled.  The one non-finite value that matters, the NaN that
  \<^verbatim>\<open>np.mean\<close> returns for an empty selection, is the constructor \<open>NaN\<close> of
  \<open>pyfloat\<close>.  An \<^verbatim>\<open>ndarray[N, 3]\<close> is a list of triples and an
  \<^verbatim>\<open>ndarray[2]\<close> a pair, as the docstrings give the shapes; indexing a column of
  such an array goes through \<open>column\<close>, which raises for a column index beyond 2.
  A bounding box is the quadruple (x, y, w, h) of the annotation format.
\<close>

datatype error =
    AssertionError | KeyError | IndexError | NameError | TypeError
  | ValueError | AxisError | AttributeError | OverflowError | OSError

datatype pyfloat = Fin real | NaN

type_synonym vec2 = "real \<times> real"
type_synonym vec3 = "real \<times> real \<times> real"
type_synonym vec4 = "real \<times> real \<times> real \<times> real"
type_synonym mat3 = "vec3 \<times> vec3 \<times> vec3"

definition bindE :: "error + 'a \<Rightarrow> ('a \<Rightarrow> error + 'b) \<Rightarrow> error + 'b" where
  "bindE m f = (case m of Inl e \<Rightarrow> Inl e | Inr x \<Rightarrow> f x)"

definition lookup :: "('k \<rightharpoonup> 'v) \<Rightarrow> 'k \<Rightarrow> error + 'v" where
  \<comment> \<open>\<^verbatim>\<open>d[k]\<close> on a dict\<close>
  "lookup d k = (case d k of None \<Rightarrow> Inl KeyError | Some v \<Rightarrow> Inr v)"

definition row :: "'a list \<Rightarrow> nat \<Rightarrow> error + 'a" where
  \<comment> \<open>\<^verbatim>\<open>a[i]\<close> for a non-negative literal index\<close>
  "row a i = (if i < length a then Inr (a ! i) else Inl IndexError)"

definition column :: "vec3 \<Rightarrow> nat \<Rightarrow> real" where
  "column v j = (case v of (x, y, z) \<Rightarrow> if j = 0 then x else if j = 1 then y else z)"

definition entry :: "vec3 list \<Rightarrow> nat \<Rightarrow> nat \<Rightarrow> error + real" where
  \<comment> \<open>\<^verbatim>\<open>a[i, j]\<close> on an array of shape (N, 3)\<close>
  "entry a i j =
     (if i < length a \<and> j < 3 then Inr (column (a ! i) j) else Inl IndexError)"

definition rows_column :: "vec3 list \<Rightarrow> nat \<Rightarrow> error + real list" where
  \<comment> \<open>\<^verbatim>\<open>a[lo:hi, j]\<close> on rows already sliced from an array of shape (N, 3): the row
      slice never raises, the column index does when it is beyond the last column\<close>
  "rows_column rs j = (if j < 3 then Inr (map (\<lambda>v. column v j) rs) else Inl IndexError)"

section \<open>Coordinate transforms\<close>

definition cam2pixel :: "vec3 list \<Rightarrow> vec2 \<Rightarrow> vec2 \<Rightarrow> vec3 list" where
  \<comment> \<open>\<^verbatim>\<open>_cam2pixel\<close>: x / (z + 1e-8) * f[0] + c[0], the same for y, and z = 0.  NumPy
      divides by zero without an exception (the value is inf or nan); HOL's x / 0 = 0
      stands in its place, so a statement about a divisor that is 0 would not be one
      about the code, and the theorems below assume the divisors nonzero.\<close>
  "cam2pixel cam_coord f c =
     map (\<lambda>(x, y, z).
            (x / (z + 1 / 10 ^ 8) * fst f + fst c,
             y / (z + 1 / 10 ^ 8) * snd f + snd c,
             0)) cam_coord"

definition dot3 :: "vec3 \<Rightarrow> vec3 \<Rightarrow> real" where
  "dot3 a b = (case a of (a0, a1, a2) \<Rightarrow> case b of (b0, b1, b2) \<Rightarrow>
                 a0 * b0 + a1 * b1 + a2 * b2)"

definition world2cam :: "vec3 list \<Rightarrow> mat3 \<Rightarrow> vec3 \<Rightarrow> vec3 list" where
  \<comment> \<open>\<^verbatim>\<open>_world2cam\<close>: np.dot(R, world_coord - T).  The source holds the joints as the
      columns of a 3 x N array and T as a 3 x 1 column; here each list element is one
      column, so the transposes around the call in \<^verbatim>\<open>_get_db\<close> are the identity.\<close>
  "world2cam world_coord R T =
     map (\<lambda>(wx, wy, wz).
            (case T of (tx, ty, tz) \<Rightarrow> case R of (r0, r1, r2) \<Rightarrow>
               let d = (wx - tx, wy - ty, wz - tz)
               in (dot3 r0 d, dot3 r1 d, dot3 r2 d))) world_coord"

definition pixel2cam :: "vec3 list \<Rightarrow> vec2 \<Rightarrow> vec2 \<Rightarrow> vec3 list" where
  \<comment> \<open>\<^verbatim>\<open>_pixel2cam\<close> on an array of shape (N, 3); for a focal length of 0 see
      \<open>cam2pixel\<close>\<close>
  "pixel2cam pixel_coord f c =
     map (\<lambda>(px, py, pz).
            ((px - fst c) / fst f * pz,
             (py - snd c) / snd f * pz,
             pz)) pixel_coord"

definition with_depth :: "vec3 list \<Rightarrow> vec3 list \<Rightarrow> vec3 list" where
  \<comment> \<open>The depth carried beside the projection: the pixel (x, y) of the first array with
      the third column of the second.\<close>
  "with_depth pix cam = map2 (\<lambda>(px, py, _) (_, _, z). (px, py, z)) pix cam"

section \<open>Hand type\<close>

definition process_handtype :: "string \<Rightarrow> error + int \<times> int" where
  \<comment> \<open>\<^verbatim>\<open>_process_handtype\<close>; the final \<^verbatim>\<open>assert 0\<close> raises AssertionError\<close>
  "process_handtype hand_type =
     (if hand_type = ''right'' then Inr (1, 0)
      else if hand_type = ''left'' then Inr (0, 1)
      else if hand_type = ''interacting'' then Inr (1, 1)
      else Inl AssertionError)"

definition all_nonzero :: "int \<times> int \<Rightarrow> bool" where
  \<comment> \<open>\<^verbatim>\<open>hand_type.all()\<close>\<close>
  "all_nonzero h = (fst h \<noteq> 0 \<and> snd h \<noteq> 0)"

section \<open>Root-validity propagation\<close>

definition propagate_root_validity :: "real list \<Rightarrow> error + real list" where
  \<comment> \<open>\<^verbatim>\<open>joint_valid[:20] *= joint_valid[20]; joint_valid[21:] *= joint_valid[41]\<close>.
      The scalar on the right is read before the slice is updated, so the second
      statement squares element 41.\<close>
  "propagate_root_validity joint_valid =
     bindE (row joint_valid 20) (\<lambda>r.
       let jv1 = map (\<lambda>v. v * r) (take 20 joint_valid) @ drop 20 joint_valid in
       bindE (row jv1 41) (\<lambda>l.
         Inr (take 21 jv1 @ map (\<lambda>v. v * l) (drop 21 jv1))))"

definition visible_rows :: "nat \<Rightarrow> real list \<Rightarrow> error + vec3 list" where
  \<comment> \<open>\<^verbatim>\<open>joints_3d_visible = np.zeros((num_joints, 3));
      joints_3d_visible[...] = np.minimum(1, joint_valid.reshape(-1, 1))\<close>: a column of
      height 1 or num_joints broadcasts, any other height raises\<close>
  "visible_rows num_joints joint_valid =
     (if length joint_valid = num_joints then
        Inr (map (\<lambda>v. (min 1 v, min 1 v, min 1 v)) joint_valid)
      else if length joint_valid = 1 then
        Inr (replicate num_joints
               (min 1 (hd joint_valid), min 1 (hd joint_valid), min 1 (hd joint_valid)))
      else Inl ValueError)"

section \<open>Handedness accuracy\<close>

definition rows_equal ::
  "(int \<times> int) list \<Rightarrow> (int \<times> int) list \<Rightarrow> error + (bool \<times> bool) list" where
  \<comment> \<open>\<^verbatim>\<open>outputs == gts\<close> on arrays of shape (N, 2) and (M, 2): elementwise when N = M, an
      array with one row broadcasts over the other, any other pair of shapes is an error\<close>
  "rows_equal outputs gts =
     (if length outputs = length gts then
        Inr (map2 (\<lambda>out gt. (fst out = fst gt, snd out = snd gt)) outputs gts)
      else if length outputs = 1 then
        Inr (map (\<lambda>gt. (fst (hd outputs) = fst gt, snd (hd outputs) = snd gt)) gts)
      else if length gts = 1 then
        Inr (map (\<lambda>out. (fst out = fst (hd gts), snd out = snd (hd gts))) outputs)
      else Inl ValueError)"

definition bool_index :: "'a list \<Rightarrow> bool list \<Rightarrow> error + 'a list" where
  \<comment> \<open>\<^verbatim>\<open>a[masks]\<close>: a mask as long as the array selects the entries where it is True, an
      empty mask selects nothing, and a mask of any other length raises\<close>
  "bool_index a masks =
     (if length masks = length a then Inr (map fst (filter snd (zip a masks)))
      else if masks = [] then Inr []
      else Inl IndexError)"

definition np_mean :: "bool list \<Rightarrow> pyfloat" where
  \<comment> \<open>\<^verbatim>\<open>np.mean\<close> of a boolean array: the number of True entries over the size; the
      mean of an empty array is NaN (with a RuntimeWarning, no exception)\<close>
  "np_mean bs =
     (if bs = [] then NaN else Fin (real (length (filter (\<lambda>b. b) bs)) / real (length bs)))"

definition get_accuracy ::
  "(int \<times> int) list \<Rightarrow> (int \<times> int) list \<Rightarrow> bool list \<Rightarrow> error + pyfloat" where
  \<comment> \<open>\<^verbatim>\<open>_get_accuracy\<close>: acc = (outputs == gts).all(axis=1); np.mean(acc[masks])\<close>
  "get_accuracy outputs gts masks =
     bindE (rows_equal outputs gts) (\<lambda>eq.
       let acc = map (\<lambda>(a, b). a \<and> b) eq in
       bindE (bool_index acc masks) (\<lambda>sel. Inr (np_mean sel)))"

definition fraction_correct_among_valid ::
  "(int \<times> int) list \<Rightarrow> (int \<times> int) list \<Rightarrow> bool list \<Rightarrow> real" where
  \<comment> \<open>The specification's wording: among the samples with a valid handedness label, the
      fraction whose predicted vector equals the ground-truth vector.\<close>
  "fraction_correct_among_valid outputs gts valid =
     real (length (filter (\<lambda>(out, gt, v). v \<and> out = gt) (zip outputs (zip gts valid)))) /
     real (length (filter (\<lambda>v. v) valid))"

section \<open>Records of the database and of the results file\<close>

text \<open>
  One element of \<^verbatim>\<open>self.db\<close>, with the keys of the dict that \<^verbatim>\<open>_get_db\<close> appends.
\<close>

record item =
  image_file :: string
  center :: vec2
  scale :: vec2
  rotation :: int
  joints_3d :: "vec3 list"
  joints_3d_visible :: "vec3 list"
  hand_type :: "int \<times> int"
  hand_type_valid :: int
  rel_root_depth :: real
  abs_depth :: "real list"
  joints_cam :: "vec3 list"
  focal :: vec2
  princpt :: vec2
  dataset :: string
  bbox :: vec4
  bbox_score :: int
  bbox_id :: nat

text \<open>
  One element of the results file, with the keys of the dict \<^verbatim>\<open>kpt\<close> that
  \<^verbatim>\<open>evaluate\<close> builds; a key that is only written when the model output has the
  field is an option.  The keys that \<open>item\<close> has too carry the prefix \<open>pred\<close>.
\<close>

record kpt =
  pred_center :: "real list"
  pred_scale :: "real list"
  area :: real
  score :: real
  image_id :: nat
  pred_bbox_id :: nat
  keypoints :: "vec3 list option"
  pred_hand_type :: "(real \<times> real) option"
  hand_type_score :: "(real \<times> real) option"
  pred_rel_root_depth :: "real option"

type_synonym files = "string \<rightharpoonup> kpt list"

definition field :: "'a option \<Rightarrow> error + 'a" where
  \<comment> \<open>\<^verbatim>\<open>d['key']\<close> for a key that may be absent\<close>
  "field v = (case v of None \<Rightarrow> Inl KeyError | Some x \<Rightarrow> Inr x)"

definition open_json :: "(string \<rightharpoonup> 'a) \<Rightarrow> string \<Rightarrow> error + 'a" where
  \<comment> \<open>\<^verbatim>\<open>with open(path, 'r') as f: json.load(f)\<close>\<close>
  "open_json fs path = (case fs path of None \<Rightarrow> Inl OSError | Some content \<Rightarrow> Inr content)"

fun traverse :: "('a \<Rightarrow> error + 'b) \<Rightarrow> 'a list \<Rightarrow> error + 'b list" where
  \<comment> \<open>a \<^verbatim>\<open>for\<close> loop that appends one result per element and stops at the first
      exception\<close>
  "traverse f [] = Inr []"
| "traverse f (x # xs) =
     bindE (f x) (\<lambda>y. bindE (traverse f xs) (\<lambda>ys. Inr (y # ys)))"

definition only_if :: "bool \<Rightarrow> error + 'a \<Rightarrow> error + 'a option" where
  \<comment> \<open>a block under \<^verbatim>\<open>if 'NAME' in metrics:\<close>\<close>
  "only_if c m = (if c then bindE m (\<lambda>x. Inr (Some x)) else Inr None)"

section \<open>Metric reporting\<close>

definition sub3 :: "vec3 \<Rightarrow> vec3 \<Rightarrow> vec3" where
  "sub3 a b = (case a of (a0, a1, a2) \<Rightarrow> case b of (b0, b1, b2) \<Rightarrow>
                 (a0 - b0, a1 - b1, a2 - b2))"

definition pixel2cam_1d :: "vec3 \<Rightarrow> vec2 \<Rightarrow> vec2 \<Rightarrow> error + vec3" where
  \<comment> \<open>\<^verbatim>\<open>_pixel2cam\<close> called with one keypoint, \<^verbatim>\<open>pred['keypoints'][41].copy()\<close>: a
      Python list of three numbers read from the JSON file.  Its first statement,
      \<^verbatim>\<open>pixel_coord[:, 0]\<close>, indexes that list with a tuple, which raises TypeError.\<close>
  "pixel2cam_1d pixel_coord f c = Inl TypeError"

definition mrrpe_valid :: "item \<Rightarrow> error + bool" where
  \<comment> \<open>\<^verbatim>\<open>item['hand_type'].all() and item['joints_3d_visible'][20, 0] and
      item['joints_3d_visible'][41, 0]\<close>, evaluated left to right\<close>
  "mrrpe_valid item =
     (if \<not> all_nonzero (hand_type item) then Inr False
      else bindE (entry (joints_3d_visible item) 20 0) (\<lambda>v20.
             if v20 = 0 then Inr False
             else bindE (entry (joints_3d_visible item) 41 0) (\<lambda>v41. Inr (v41 \<noteq> 0))))"

definition mrrpe_sample :: "kpt \<Rightarrow> item \<Rightarrow> error + bool \<times> vec3 list \<times> vec3 list" where
  \<comment> \<open>the block under \<^verbatim>\<open>if 'MRRPE' in metrics:\<close>; the result is what is appended to
      rel_root_masks, preds_rel_root and gts_rel_root\<close>
  "mrrpe_sample pred item =
     bindE (mrrpe_valid item) (\<lambda>valid.
       if valid then
         bindE (field (keypoints pred)) (\<lambda>kps.
         bindE (row kps 41) (\<lambda>(lx, ly, lz).
         bindE (row (abs_depth item) 0) (\<lambda>d0.
         bindE (field (pred_rel_root_depth pred)) (\<lambda>rel.
         bindE (pixel2cam_1d (lx, ly, lz + (d0 + rel)) (focal item) (princpt item))
           (\<lambda>pred_left_root_cam.
         bindE (row kps 20) (\<lambda>(rx, ry, rz).
         bindE (row (abs_depth item) 0) (\<lambda>d0'.
         bindE (pixel2cam_1d (rx, ry, rz + d0') (focal item) (princpt item))
           (\<lambda>pred_right_root_cam.
         bindE (row (joints_cam item) 41) (\<lambda>gt_left.
         bindE (row (joints_cam item) 20) (\<lambda>gt_right.
         Inr (True, [sub3 pred_left_root_cam pred_right_root_cam],
              [sub3 gt_left gt_right])))))))))))
       else Inr (False, [(0, 0, 0)], [(0, 0, 0)]))"

definition recenter :: "vec3 list \<Rightarrow> error + vec3 list" where
  \<comment> \<open>\<^verbatim>\<open>a[:21] -= a[20]; a[21:] -= a[41]\<close>\<close>
  "recenter a =
     bindE (row a 20) (\<lambda>r.
       let a1 = map (\<lambda>v. sub3 v r) (take 21 a) @ drop 21 a in
       bindE (row a1 41) (\<lambda>l.
         Inr (take 21 a1 @ map (\<lambda>v. sub3 v l) (drop 21 a1))))"

definition mpjpe_sample ::
  "nat \<Rightarrow> kpt \<Rightarrow> item \<Rightarrow> error + vec3 list \<times> vec3 list \<times> bool list \<times> bool list \<times> bool list" where
  \<comment> \<open>the block under \<^verbatim>\<open>if 'MPJPE' in metrics:\<close>; the result is what is appended to
      preds_joint_coord_cam, gts_joint_coord_cam, single_masks, interacting_masks and
      all_masks\<close>
  "mpjpe_sample num_joints pred item =
     bindE (field (keypoints pred)) (\<lambda>kps.
     bindE (row (abs_depth item) 0) (\<lambda>d0.
     bindE (row (abs_depth item) 1) (\<lambda>d1.
     let pred_joint_coord_img =
           map (\<lambda>(x, y, z). (x, y, z + d0)) (take 21 kps) @
           map (\<lambda>(x, y, z). (x, y, z + d1)) (drop 21 kps);
         pred_joint_coord_cam = pixel2cam pred_joint_coord_img (focal item) (princpt item)
     in
     bindE (recenter pred_joint_coord_cam) (\<lambda>pred_cam.
     bindE (recenter (joints_cam item)) (\<lambda>gt_cam.
     let mask = map (\<lambda>v. column v 0 > 0) (joints_3d_visible item) in
     if all_nonzero (hand_type item) then
       Inr (pred_cam, gt_cam, replicate num_joints False, mask, mask)
     else
       Inr (pred_cam, gt_cam, mask, replicate num_joints False, mask))))))"

definition trunc_int :: "real \<Rightarrow> int" where
  \<comment> \<open>truncation towards zero, the integer that Python's \<^verbatim>\<open>int(x)\<close> returns\<close>
  "trunc_int x = (if 0 \<le> x then \<lfloor>x\<rfloor> else \<lceil>x\<rceil>)"

definition fits_int64 :: "int \<Rightarrow> bool" where
  "fits_int64 k = (- (2 ^ 63) \<le> k \<and> k < 2 ^ 63)"

definition py_int :: "real \<Rightarrow> error + int" where
  \<comment> \<open>one component of \<^verbatim>\<open>np.array(..., dtype=int)\<close>: the number is truncated towards zero
      and stored as a 64-bit integer; one that does not fit raises OverflowError\<close>
  "py_int x = (if fits_int64 (trunc_int x) then Inr (trunc_int x) else Inl OverflowError)"

definition int_hand_type :: "real \<times> real \<Rightarrow> error + int \<times> int" where
  \<comment> \<open>\<^verbatim>\<open>np.array(pred['hand_type'], dtype=int)\<close>\<close>
  "int_hand_type t = bindE (py_int (fst t)) (\<lambda>a. bindE (py_int (snd t)) (\<lambda>b. Inr (a, b)))"

definition hand_type_fits :: "real \<times> real \<Rightarrow> bool" where
  \<comment> \<open>both components convert\<close>
  "hand_type_fits t = (fits_int64 (trunc_int (fst t)) \<and> fits_int64 (trunc_int (snd t)))"

definition hand_type_ints :: "real \<times> real \<Rightarrow> int \<times> int" where
  \<comment> \<open>the vector of integers that the conversion returns when both components fit\<close>
  "hand_type_ints t = (trunc_int (fst t), trunc_int (snd t))"

definition handedness_sample :: "kpt \<Rightarrow> item \<Rightarrow> error + (int \<times> int) \<times> (int \<times> int) \<times> bool" where
  \<comment> \<open>the block under \<^verbatim>\<open>if 'Handedness_acc' in metrics:\<close>; the result is what is
      appended to preds_hand_type, gts_hand_type and hand_type_masks\<close>
  "handedness_sample pred item =
     bindE (field (pred_hand_type pred)) (\<lambda>t.
     bindE (int_hand_type t) (\<lambda>pred_hand_type.
       Inr (pred_hand_type, hand_type item, hand_type_valid item > 0)))"

definition report_sample ::
  "string list \<Rightarrow> nat \<Rightarrow> kpt \<times> item \<Rightarrow>
   error + (bool \<times> vec3 list \<times> vec3 list) option
         \<times> (vec3 list \<times> vec3 list \<times> bool list \<times> bool list \<times> bool list) option
         \<times> ((int \<times> int) \<times> (int \<times> int) \<times> bool) option" where
  \<comment> \<open>one iteration of \<^verbatim>\<open>for pred, item in zip(preds, self.db)\<close>\<close>
  "report_sample metrics num_joints = (\<lambda>(pred, item).
     bindE (only_if (''MRRPE'' \<in> set metrics) (mrrpe_sample pred item)) (\<lambda>r.
     bindE (only_if (''MPJPE'' \<in> set metrics) (mpjpe_sample num_joints pred item)) (\<lambda>j.
     bindE (only_if (''Handedness_acc'' \<in> set metrics) (handedness_sample pred item)) (\<lambda>h.
     Inr (r, j, h)))))"

datatype mask = Mask1 "bool list" | Mask2 "bool list list"

type_synonym keypoint_epe = "vec3 list list \<Rightarrow> vec3 list list \<Rightarrow> mask \<Rightarrow> error + pyfloat"

definition stacked_accuracy ::
  "(int \<times> int) list \<Rightarrow> (int \<times> int) list \<Rightarrow> bool list \<Rightarrow> error + pyfloat" where
  \<comment> \<open>\<^verbatim>\<open>self._get_accuracy(np.array(preds_hand_type), np.array(gts_hand_type),
      np.array(hand_type_masks))\<close>: the array of an empty list has one axis, so
      \<^verbatim>\<open>.all(axis=1)\<close> raises AxisError when there is no sample\<close>
  "stacked_accuracy outputs gts masks =
     (if outputs = [] then Inl AxisError else get_accuracy outputs gts masks)"

definition report_metric ::
  "keypoint_epe \<Rightarrow> item list \<Rightarrow> nat \<Rightarrow> files \<Rightarrow> string \<Rightarrow> string list \<Rightarrow>
   error + (string \<times> pyfloat) list" where
  \<comment> \<open>\<^verbatim>\<open>_report_metric\<close>, with \<^verbatim>\<open>self.db\<close> and \<^verbatim>\<open>self.ann_info['num_joints']\<close> as
      arguments.  \<^verbatim>\<open>keypoint_epe\<close> is imported from
      \<^verbatim>\<open>mmpose.core.evaluation.top_down_eval\<close> and is a parameter here.\<close>
  "report_metric epe db num_joints fs res_file metrics =
     bindE (open_json fs res_file) (\<lambda>preds.
     if length preds \<noteq> length db then Inl AssertionError
     else
     bindE (traverse (report_sample metrics num_joints) (zip preds db)) (\<lambda>samples.
     let rel = List.map_filter (\<lambda>(r, j, h). r) samples;
         jnt = List.map_filter (\<lambda>(r, j, h). j) samples;
         hnd = List.map_filter (\<lambda>(r, j, h). h) samples;
         preds_rel_root = map (\<lambda>(m, p, g). p) rel;
         gts_rel_root = map (\<lambda>(m, p, g). g) rel;
         rel_root_masks = map (\<lambda>(m, p, g). m) rel;
         preds_joint_coord_cam = map (\<lambda>(p, g, s, i, a). p) jnt;
         gts_joint_coord_cam = map (\<lambda>(p, g, s, i, a). g) jnt;
         single_masks = map (\<lambda>(p, g, s, i, a). s) jnt;
         interacting_masks = map (\<lambda>(p, g, s, i, a). i) jnt;
         all_masks = map (\<lambda>(p, g, s, i, a). a) jnt;
         preds_hand_type = map (\<lambda>(p, g, m). p) hnd;
         gts_hand_type = map (\<lambda>(p, g, m). g) hnd;
         hand_type_masks = map (\<lambda>(p, g, m). m) hnd
     in
     bindE (if ''MRRPE'' \<in> set metrics then
              bindE (epe preds_rel_root gts_rel_root (Mask1 rel_root_masks)) (\<lambda>v.
                Inr [(''MRRPE'', v)])
            else Inr []) (\<lambda>info1.
     bindE (if ''MPJPE'' \<in> set metrics then
              bindE (epe preds_joint_coord_cam gts_joint_coord_cam (Mask2 all_masks)) (\<lambda>va.
              bindE (epe preds_joint_coord_cam gts_joint_coord_cam (Mask2 single_masks)) (\<lambda>vs.
              bindE (epe preds_joint_coord_cam gts_joint_coord_cam (Mask2 interacting_masks))
                (\<lambda>vi.
                Inr [(''MPJPE_all'', va), (''MPJPE_single'', vs), (''MPJPE_interacting'', vi)])))
            else Inr []) (\<lambda>info2.
     bindE (if ''Handedness_acc'' \<in> set metrics then
              bindE (stacked_accuracy preds_hand_type gts_hand_type hand_type_masks) (\<lambda>v.
                Inr [(''Handedness_acc'', v)])
            else Inr []) (\<lambda>info3.
     Inr (info1 @ info2 @ info3))))))"

section \<open>The dataset object and its collaborators\<close>

text \<open>
  What \<^verbatim>\<open>_get_db\<close> reads from the annotation index (\<^verbatim>\<open>self.coco\<close>) and from the
  three JSON files.  The keys \<^verbatim>\<open>str(img['capture'])\<close>, \<^verbatim>\<open>str(img['frame_idx'])\<close>
  are held as the strings that \<^verbatim>\<open>str\<close> returns; the table of root-depth estimates is
  keyed by the annotation id itself, since \<^verbatim>\<open>str\<close> is injective on integers.
\<close>

record img_info =
  capture :: string
  camera :: string
  frame_idx :: string

record annotation =
  joint_valid :: "real list"
  ann_hand_type :: string
  ann_hand_type_valid :: int
  ann_bbox :: vec4

record capture_cameras =
  campos :: "string \<rightharpoonup> vec3"
  camrot :: "string \<rightharpoonup> mat3"
  cam_focal :: "string \<rightharpoonup> vec2"
  cam_princpt :: "string \<rightharpoonup> vec2"

record rootnet_entry =
  annot_id :: nat
  rootnet_bbox :: vec4
  rootnet_abs_depth :: "real list"

type_synonym cameras = "string \<rightharpoonup> capture_cameras"
type_synonym joints = "string \<rightharpoonup> (string \<rightharpoonup> vec3 list)"

record input_files =
  camera_files :: "string \<rightharpoonup> cameras"
  joint_files :: "string \<rightharpoonup> joints"
  rootnet_files :: "string \<rightharpoonup> rootnet_entry list"

text \<open>
  The object \<^verbatim>\<open>self\<close>.  The fields up to \<open>write_keypoint_results\<close> are set by the base
  class \<^verbatim>\<open>HandBaseDataset\<close> or are its methods and those of the annotation index, which
  are not part of this module; they are parameters.  An attribute that has not been
  assigned is \<open>None\<close>.
\<close>

record dataset =
  img_prefix :: string
  img_ids :: "nat list"
  id2name :: "nat \<rightharpoonup> string"
  name2id :: "string \<rightharpoonup> nat"
  num_joints :: nat
  getAnnIds :: "nat \<Rightarrow> nat list"
  loadAnns :: "nat list \<Rightarrow> error + annotation list"
  loadImgs :: "nat \<Rightarrow> error + img_info list"
  xywh2cs :: "real \<Rightarrow> real \<Rightarrow> real \<Rightarrow> real \<Rightarrow> real \<Rightarrow> vec2 \<times> vec2"
  sort_and_unique_bboxes :: "kpt list \<Rightarrow> kpt list"
  write_keypoint_results :: "kpt list \<Rightarrow> string \<Rightarrow> files \<Rightarrow> error + files"
  dataset_name :: string
  camera_file :: string
  joint_file :: string
  use_gt_root_depth :: bool
  rootnet_result_file :: "string option"
  db :: "item list"

definition path_join :: "string \<Rightarrow> string \<Rightarrow> string" where
  \<comment> \<open>\<^verbatim>\<open>os.path.join(a, b)\<close> for a relative second component\<close>
  "path_join a b =
     (if a = [] \<or> last a = CHR ''/'' then a @ b else a @ ''/'' @ b)"

section \<open>Building the database\<close>

definition xywh :: "dataset \<Rightarrow> vec4 \<Rightarrow> real \<Rightarrow> vec2 \<times> vec2" where
  \<comment> \<open>\<^verbatim>\<open>self._xywh2cs(*bbox, padding)\<close> on a box (x, y, w, h)\<close>
  "xywh self box padding = (case box of (x, y, w, h) \<Rightarrow> xywh2cs self x y w h padding)"

definition bound :: "'a option \<Rightarrow> error + 'a" where
  \<comment> \<open>reading a local variable; one that no executed statement has assigned raises
      UnboundLocalError, a NameError\<close>
  "bound v = (case v of None \<Rightarrow> Inl NameError | Some x \<Rightarrow> Inr x)"

definition attribute :: "'a option \<Rightarrow> error + 'a" where
  \<comment> \<open>reading an attribute of \<^verbatim>\<open>self\<close>\<close>
  "attribute v = (case v of None \<Rightarrow> Inl AttributeError | Some x \<Rightarrow> Inr x)"

definition assign_xy :: "nat \<Rightarrow> vec2 list \<Rightarrow> error + vec3 list" where
  \<comment> \<open>\<^verbatim>\<open>joints_3d = np.zeros((num_joints, 3)); joints_3d[:, :2] = joint_img\<close>: an array of
      num_joints rows, or of one row, broadcasts\<close>
  "assign_xy n joint_img =
     (if length joint_img = n then Inr (map (\<lambda>(x, y). (x, y, 0)) joint_img)
      else if length joint_img = 1 then
        Inr (replicate n (fst (hd joint_img), snd (hd joint_img), 0))
      else Inl ValueError)"

definition set_column :: "vec3 \<Rightarrow> nat \<Rightarrow> real \<Rightarrow> vec3" where
  "set_column v j a =
     (case v of (x, y, z) \<Rightarrow> if j = 0 then (a, y, z) else if j = 1 then (x, a, z) else (x, y, a))"

definition assign_rows_column ::
  "vec3 list \<Rightarrow> nat \<Rightarrow> nat \<Rightarrow> nat \<Rightarrow> real list \<Rightarrow> error + vec3 list" where
  \<comment> \<open>\<^verbatim>\<open>a[lo:hi, j] = values\<close> on an array of shape (N, 3)\<close>
  "assign_rows_column a lo hi j values =
     (if \<not> j < 3 then Inl IndexError
      else
        let rs = take (hi - lo) (drop lo a) in
        if length values = length rs then
          Inr (take lo a @ map2 (\<lambda>v x. set_column v j x) rs values @ drop hi a)
        else if length values = 1 then
          Inr (take lo a @ map (\<lambda>v. set_column v j (hd values)) rs @ drop hi a)
        else Inl ValueError)"

definition get_db_record ::
  "dataset \<Rightarrow> cameras \<Rightarrow> joints \<Rightarrow> (nat \<rightharpoonup> rootnet_entry) option \<Rightarrow> nat \<times> nat \<Rightarrow> error + item" where
  \<comment> \<open>one iteration of \<^verbatim>\<open>for img_id in self.img_ids\<close> in \<^verbatim>\<open>_get_db\<close>, with the running
      \<^verbatim>\<open>bbox_id\<close>; \<open>rootnet_result\<close> is \<open>None\<close> when the local variable of that name has
      not been assigned\<close>
  "get_db_record self cameras joints rootnet_result = (\<lambda>(bbox_id, img_id).
     let ann_id = getAnnIds self img_id in
     bindE (loadAnns self ann_id) (\<lambda>anns.
     bindE (row anns 0) (\<lambda>ann.
     bindE (loadImgs self img_id) (\<lambda>imgs.
     bindE (row imgs 0) (\<lambda>img.
     bindE (lookup (id2name self) img_id) (\<lambda>name.
     let image_file = path_join (img_prefix self) name in
     bindE (lookup cameras (capture img)) (\<lambda>cams.
     bindE (lookup (campos cams) (camera img)) (\<lambda>camera_pos.
     bindE (lookup (camrot cams) (camera img)) (\<lambda>camera_rot.
     bindE (lookup (cam_focal cams) (camera img)) (\<lambda>focal.
     bindE (lookup (cam_princpt cams) (camera img)) (\<lambda>principal_pt.
     bindE (lookup joints (capture img)) (\<lambda>frames.
     bindE (lookup frames (frame_idx img)) (\<lambda>joint_world.
     if joint_world = [] then Inl ValueError
     else
     let joint_cam = world2cam joint_world camera_rot camera_pos;
         joint_img = map (\<lambda>(x, y, z). (x, y)) (cam2pixel joint_cam focal principal_pt)
     in
     bindE (process_handtype (ann_hand_type ann)) (\<lambda>hand_type.
     bindE (if use_gt_root_depth self then
              (let (center, scale) = xywh self (ann_bbox ann) (5 / 4) in
              bindE (entry joint_cam 20 2) (\<lambda>right_z.
              bindE (entry joint_cam 41 2) (\<lambda>left_z.
              Inr (ann_bbox ann, center, scale, [right_z, left_z]))))
            else
              bindE (bound rootnet_result) (\<lambda>table.
              bindE (row ann_id 0) (\<lambda>first_id.
              bindE (lookup table first_id) (\<lambda>rootnet_ann_data.
              (let (center, scale) = xywh self (rootnet_bbox rootnet_ann_data) 1 in
              Inr (rootnet_bbox rootnet_ann_data, center, scale,
                   rootnet_abs_depth rootnet_ann_data))))))
       (\<lambda>(bbox, center, scale, abs_depth).
     bindE (entry joint_cam 41 2) (\<lambda>left_z.
     bindE (entry joint_cam 20 2) (\<lambda>right_z.
     bindE (propagate_root_validity (joint_valid ann)) (\<lambda>joint_valid.
     bindE (assign_xy (num_joints self) joint_img) (\<lambda>joints_3d.
     bindE (rows_column (take 21 joint_cam) 3) (\<lambda>right_zs.
     bindE (entry joint_cam 20 3) (\<lambda>right_root.
     bindE (assign_rows_column joints_3d 0 21 3 (map (\<lambda>z. z - right_root) right_zs))
       (\<lambda>joints_3d.
     bindE (rows_column (drop 21 joint_cam) 3) (\<lambda>left_zs.
     bindE (entry joint_cam 41 3) (\<lambda>left_root.
     bindE (assign_rows_column joints_3d 21 (length joints_3d) 3
              (map (\<lambda>z. z - left_root) left_zs))
       (\<lambda>joints_3d.
     bindE (visible_rows (num_joints self) joint_valid) (\<lambda>joints_3d_visible.
     Inr \<lparr>image_file = image_file, center = center, scale = scale, rotation = 0,
          joints_3d = joints_3d, joints_3d_visible = joints_3d_visible,
          hand_type = hand_type, hand_type_valid = ann_hand_type_valid ann,
          rel_root_depth = left_z - right_z, abs_depth = abs_depth,
          joints_cam = joint_cam, focal = focal, princpt = principal_pt,
          dataset = dataset_name self, bbox = bbox, bbox_score = 1,
          bbox_id = bbox_id\<rparr>))))))))))))))))))))))))))"

definition get_db :: "dataset \<Rightarrow> input_files \<Rightarrow> error + item list" where
  \<comment> \<open>\<^verbatim>\<open>_get_db\<close>\<close>
  "get_db self fs =
     bindE (open_json (camera_files fs) (camera_file self)) (\<lambda>cameras.
     bindE (open_json (joint_files fs) (joint_file self)) (\<lambda>joints.
     bindE (if use_gt_root_depth self then
              bindE (attribute (rootnet_result_file self)) (\<lambda>path.
              bindE (open_json (rootnet_files fs) path) (\<lambda>rootnet_annot.
              Inr (Some (fold (\<lambda>a table. table(annot_id a \<mapsto> a)) rootnet_annot Map.empty))))
            else Inr None) (\<lambda>rootnet_result.
     bindE (traverse (get_db_record self cameras joints rootnet_result)
              (enumerate 0 (img_ids self))) (\<lambda>gt_db.
     Inr (sort_key bbox_id gt_db)))))"

definition init ::
  "dataset \<Rightarrow> string \<Rightarrow> string \<Rightarrow> bool \<Rightarrow> string option \<Rightarrow> input_files \<Rightarrow> error + dataset" where
  \<comment> \<open>\<^verbatim>\<open>__init__\<close>; the first argument is the object as \<^verbatim>\<open>super().__init__\<close> leaves it\<close>
  "init base camera_file' joint_file' use_gt_root_depth' rootnet_result_file' fs =
     (if num_joints base \<noteq> 42 then Inl AssertionError
      else
        let self = base\<lparr>dataset_name := ''interhand3d'', camera_file := camera_file',
                        joint_file := joint_file',
                        use_gt_root_depth := use_gt_root_depth'\<rparr>
        in
        bindE (if use_gt_root_depth self then
                 (case rootnet_result_file' of
                    None \<Rightarrow> Inl AssertionError
                  | Some path \<Rightarrow> Inr (self\<lparr>rootnet_result_file := Some path\<rparr>))
               else Inr self) (\<lambda>self.
        bindE (get_db self fs) (\<lambda>gt_db. Inr (self\<lparr>db := gt_db\<rparr>))))"

section \<open>The evaluation entry point\<close>

datatype metric_arg = Name string | Names "string list"

definition allowed_metrics :: "string list" where
  "allowed_metrics = [''MRRPE'', ''MPJPE'', ''Handedness_acc'']"

record model_output =
  preds :: "vec3 list list option"
  out_hand_type :: "(real \<times> real \<times> real \<times> real) list option"
  out_rel_root_depth :: "real list list option"
  boxes :: "real list list"
  image_paths :: "string list"
  bbox_ids :: "nat list"

definition batch_kpt :: "dataset \<Rightarrow> model_output \<Rightarrow> nat \<Rightarrow> error + kpt" where
  \<comment> \<open>one iteration of \<^verbatim>\<open>for i in range(batch_size)\<close>\<close>
  "batch_kpt self out i =
     bindE (row (image_paths out) i) (\<lambda>path.
     bindE (lookup (name2id self) (drop (length (img_prefix self)) path)) (\<lambda>image.
     bindE (row (boxes out) i) (\<lambda>box.
     bindE (row box 4) (\<lambda>box_area.
     bindE (row box 5) (\<lambda>box_score.
     bindE (row (bbox_ids out) i) (\<lambda>box_id.
     bindE (case preds out of None \<Rightarrow> Inr None
            | Some p \<Rightarrow> bindE (row p i) (\<lambda>k. Inr (Some k))) (\<lambda>kps.
     bindE (case out_hand_type out of None \<Rightarrow> Inr None
            | Some h \<Rightarrow> bindE (row h i) (\<lambda>t. Inr (Some t))) (\<lambda>ht.
     bindE (case out_rel_root_depth out of None \<Rightarrow> Inr None
            | Some d \<Rightarrow> bindE (row d i) (\<lambda>r. bindE (row r 0) (\<lambda>r0. Inr (Some r0)))) (\<lambda>rel.
     Inr \<lparr>pred_center = take 2 box, pred_scale = take 2 (drop 2 box),
          area = box_area, score = box_score, image_id = image, pred_bbox_id = box_id,
          keypoints = kps,
          pred_hand_type = map_option (\<lambda>(t0, t1, s0, s1). (t0, t1)) ht,
          hand_type_score = map_option (\<lambda>(t0, t1, s0, s1). (s0, s1)) ht,
          pred_rel_root_depth = rel\<rparr>)))))))))"

definition batch_kpts :: "dataset \<Rightarrow> string list \<Rightarrow> model_output \<Rightarrow> error + kpt list" where
  \<comment> \<open>one iteration of \<^verbatim>\<open>for output in outputs\<close>\<close>
  "batch_kpts self metrics out =
     (if preds out = None \<and> ''MPJPE'' \<in> set metrics then Inl KeyError
      else if out_hand_type out = None \<and> ''Handedness_acc'' \<in> set metrics then Inl KeyError
      else if out_rel_root_depth out = None \<and> ''MRRPE'' \<in> set metrics then Inl KeyError
      else traverse (batch_kpt self out) [0..<length (image_paths out)])"

definition ordered_dict :: "(string \<times> 'v) list \<Rightarrow> (string \<times> 'v) list" where
  \<comment> \<open>\<^verbatim>\<open>OrderedDict(pairs)\<close>: a repeated key keeps its first position and takes the last
      value\<close>
  "ordered_dict pairs = fold (\<lambda>(k, v) d. AList.update k v d) pairs []"

definition evaluate ::
  "keypoint_epe \<Rightarrow> dataset \<Rightarrow> model_output list \<Rightarrow> string \<Rightarrow> metric_arg \<Rightarrow> files \<Rightarrow>
   (error + (string \<times> pyfloat) list) \<times> files" where
  \<comment> \<open>\<^verbatim>\<open>evaluate\<close>; the files are threaded through, and the second component of the
      result is their state when the call returns or raises\<close>
  "evaluate epe self outputs res_folder metric fs =
     (let metrics = (case metric of Names ms \<Rightarrow> ms | Name m \<Rightarrow> [m]) in
      if filter (\<lambda>m. m \<notin> set allowed_metrics) metrics \<noteq> [] then (Inl KeyError, fs)
      else
        let res_file = path_join res_folder ''result_keypoints.json'' in
        case traverse (batch_kpts self metrics) outputs of
          Inl e \<Rightarrow> (Inl e, fs)
        | Inr batches \<Rightarrow>
            let kpts = sort_and_unique_bboxes self (concat batches) in
            (case write_keypoint_results self kpts res_file fs of
               Inl e \<Rightarrow> (Inl e, fs)
             | Inr fs' \<Rightarrow>
                 (bindE (report_metric epe (db self) (num_joints self) fs' res_file metrics)
                    (\<lambda>info_str. Inr (ordered_dict info_str)),
                  fs')))"

section \<open>Example inputs\<close>

text \<open>
  A database record and a prediction with the given hand type, and a dataset of one
  image: 42 world joints at (0, 0, 1) seen by a camera at the origin with the identity
  rotation, focal length (1, 1) and principal point (0, 0).
\<close>

definition example_item :: "int \<times> int \<Rightarrow> int \<Rightarrow> item" where
  "example_item ht valid =
     \<lparr>image_file = ''img.jpg'', center = (5, 5), scale = (1, 1), rotation = 0,
      joints_3d = replicate 42 (0, 0, 0), joints_3d_visible = replicate 42 (1, 1, 1),
      hand_type = ht, hand_type_valid = valid, rel_root_depth = 0, abs_depth = [1, 1],
      joints_cam = replicate 42 (0, 0, 1), focal = (1, 1), princpt = (0, 0),
      dataset = ''interhand3d'', bbox = (0, 0, 10, 10), bbox_score = 1, bbox_id = 0\<rparr>"

definition example_pred :: "real \<times> real \<Rightarrow> kpt" where
  "example_pred ht =
     \<lparr>pred_center = [5, 5], pred_scale = [1, 1], area = 1, score = 1, image_id = 0,
      pred_bbox_id = 0, keypoints = Some (replicate 42 (0, 0, 0)),
      pred_hand_type = Some ht, hand_type_score = Some (1, 1),
      pred_rel_root_depth = Some 0\<rparr>"

definition no_epe :: keypoint_epe where
  "no_epe p g m = Inl ValueError"

definition example_base :: dataset where
  "example_base =
     \<lparr>img_prefix = ''data/'', img_ids = [7], id2name = [7 \<mapsto> ''img.jpg''],
      name2id = [''img.jpg'' \<mapsto> 7], num_joints = 42,
      getAnnIds = (\<lambda>i. [3]),
      loadAnns = (\<lambda>ids. Inr [\<lparr>joint_valid = replicate 42 1, ann_hand_type = ''right'',
                                 ann_hand_type_valid = 1, ann_bbox = (0, 0, 10, 10)\<rparr>]),
      loadImgs = (\<lambda>i. Inr [\<lparr>capture = ''0'', camera = ''400262'', frame_idx = ''100''\<rparr>]),
      xywh2cs = (\<lambda>x y w h padding. ((x + w / 2, y + h / 2), (w * padding, h * padding))),
      sort_and_unique_bboxes = (\<lambda>kpts. kpts),
      write_keypoint_results = (\<lambda>kpts path fs. Inr (fs(path \<mapsto> kpts))),
      dataset_name = [], camera_file = [], joint_file = [], use_gt_root_depth = False,
      rootnet_result_file = None, db = []\<rparr>"

definition example_files :: input_files where
  "example_files =
     \<lparr>camera_files =
        [''cameras.json'' \<mapsto>
           [''0'' \<mapsto> \<lparr>campos = [''400262'' \<mapsto> (0, 0, 0)],
                      camrot = [''400262'' \<mapsto> ((1, 0, 0), (0, 1, 0), (0, 0, 1))],
                      cam_focal = [''400262'' \<mapsto> (1, 1)],
                      cam_princpt = [''400262'' \<mapsto> (0, 0)]\<rparr>]],
      joint_files =
        [''joints.json'' \<mapsto> [''0'' \<mapsto> [''100'' \<mapsto> replicate 42 (0, 0, 1)]]],
      rootnet_files =
        [''rootnet.json'' \<mapsto>
           [\<lparr>annot_id = 3, rootnet_bbox = (0, 0, 10, 10), rootnet_abs_depth = [1, 1]\<rparr>]]\<rparr>"

section \<open>Properties\<close>

lemma bindE_Inr [simp]: "bindE (Inr x) f = f x"
  by (simp add: bindE_def)

lemma bindE_Inl [simp]: "bindE (Inl e) f = Inl e"
  by (simp add: bindE_def)

text \<open>
  Claim C7.  The hand-type classification maps 'right' to [1,0], 'left' to [0,1] and
  'interacting' to [1,1]; every other label raises (an AssertionError) and no default
  is returned.
\<close>

theorem process_handtype_mapping:
  "process_handtype ''right'' = Inr (1, 0) \<and>
   process_handtype ''left'' = Inr (0, 1) \<and>
   process_handtype ''interacting'' = Inr (1, 1) \<and>
   (\<forall>s. s \<noteq> ''right'' \<and> s \<noteq> ''left'' \<and> s \<noteq> ''interacting''
        \<longrightarrow> process_handtype s = Inl AssertionError)"
  by (simp add: process_handtype_def)

theorem process_handtype_mapping_witness:
  "''both'' \<noteq> ''right'' \<and> ''both'' \<noteq> ''left'' \<and> ''both'' \<noteq> ''interacting'' \<and>
   process_handtype ''both'' = Inl AssertionError \<and>
   process_handtype ''right'' = Inr (1, 0)"
  using process_handtype_mapping by simp

lemma propagate_total:
  assumes "42 \<le> length jv"
  shows "\<exists>jv'. propagate_root_validity jv = Inr jv' \<and> length jv' = length jv \<and>
     (\<forall>i<20. jv' ! i = jv ! i * jv ! 20) \<and> jv' ! 20 = jv ! 20 \<and>
     (\<forall>i. 21 \<le> i \<and> i < length jv \<longrightarrow> jv' ! i = jv ! i * jv ! 41)"
proof -
  define jv1 where "jv1 = map (\<lambda>v. v * jv ! 20) (take 20 jv) @ drop 20 jv"
  define jv2 where "jv2 = take 21 jv1 @ map (\<lambda>v. v * jv1 ! 41) (drop 21 jv1)"
  have l1: "length jv1 = length jv" using assms by (simp add: jv1_def)
  have lo: "jv1 ! i = jv ! i * jv ! 20" if "i < 20" for i
    using that assms by (simp add: jv1_def nth_append)
  have hi: "jv1 ! i = jv ! i" if "20 \<le> i" "i < length jv" for i
    using that assms by (simp add: jv1_def nth_append)
  have l2: "length jv2 = length jv" using assms l1 by (simp add: jv2_def)
  have a: "jv2 ! i = jv ! i * jv ! 20" if "i < 20" for i
    using that assms l1 lo by (simp add: jv2_def nth_append)
  have b: "jv2 ! 20 = jv ! 20"
    using assms l1 hi [of 20] by (simp add: jv2_def nth_append)
  have c: "jv2 ! i = jv ! i * jv ! 41" if "21 \<le> i" "i < length jv" for i
  proof -
    have "jv2 ! i = map (\<lambda>v. v * jv1 ! 41) (drop 21 jv1) ! (i - 21)"
      using that l1 by (simp add: jv2_def nth_append)
    also have "\<dots> = drop 21 jv1 ! (i - 21) * jv1 ! 41"
      using that l1 by (subst nth_map) simp_all
    also have "drop 21 jv1 ! (i - 21) = jv1 ! i"
      using that l1 assms by (subst nth_drop) simp_all
    finally show ?thesis using that assms hi [of i] hi [of 41] by simp
  qed
  have r20: "row jv 20 = Inr (jv ! 20)"
    using assms by (simp add: row_def)
  have r41: "row jv1 41 = Inr (jv1 ! 41)"
    using assms l1 by (simp add: row_def)
  have "propagate_root_validity jv = Inr jv2"
    by (simp only: propagate_root_validity_def r20 bindE_Inr Let_def
        jv1_def [symmetric] r41 jv2_def [symmetric])
  with l2 a b c show ?thesis by blast
qed

text \<open>
  Claim C6.  For every visibility array that has the 42 joints, the root-validity
  propagation returns an array of the same length, and a wrist flag of 0 leaves every
  flag of that hand at 0, whatever the flags of its other joints were: elements 0 to
  20 when element 20 is 0, elements 21 to 41 (and any further one) when element 41
  is 0.  In general each flag of a hand is multiplied by the flag of its wrist, and
  the right wrist's own flag is kept.
\<close>

theorem root_validity_propagation:
  assumes "42 \<le> length jv"
  shows "\<exists>jv'. propagate_root_validity jv = Inr jv' \<and> length jv' = length jv \<and>
     (jv ! 20 = 0 \<longrightarrow> (\<forall>i<21. jv' ! i = 0)) \<and>
     (jv ! 41 = 0 \<longrightarrow> (\<forall>i. 21 \<le> i \<and> i < length jv \<longrightarrow> jv' ! i = 0)) \<and>
     (\<forall>i<20. jv' ! i = jv ! i * jv ! 20) \<and> jv' ! 20 = jv ! 20 \<and>
     (\<forall>i. 21 \<le> i \<and> i < length jv \<longrightarrow> jv' ! i = jv ! i * jv ! 41)"
proof -
  from assms obtain jv' where p: "propagate_root_validity jv = Inr jv'"
    and l: "length jv' = length jv"
    and lo: "\<forall>i<20. jv' ! i = jv ! i * jv ! 20" and w: "jv' ! 20 = jv ! 20"
    and hi: "\<forall>i. 21 \<le> i \<and> i < length jv \<longrightarrow> jv' ! i = jv ! i * jv ! 41"
    using propagate_total [of jv] by auto
  have r: "jv' ! i = 0" if "jv ! 20 = 0" "i < 21" for i
    using that lo w by (cases "i = 20") auto
  have s: "jv' ! i = 0" if "jv ! 41 = 0" "21 \<le> i" "i < length jv" for i
    using that hi by simp
  show ?thesis using p l r s lo w hi by auto
qed

theorem root_validity_propagation_witness:
  "42 \<le> length (replicate 20 (1::real) @ [0] @ replicate 20 1 @ [0]) \<and>
   propagate_root_validity (replicate 20 1 @ [0] @ replicate 20 1 @ [0]) = Inr (replicate 42 0)"
proof -
  let ?jv = "replicate 20 (1::real) @ [0] @ replicate 20 1 @ [0]"
  have len: "length ?jv = 42" by simp
  then have le: "42 \<le> length ?jv" by simp
  have w20: "?jv ! 20 = 0" by (simp add: nth_append)
  have w41: "?jv ! 41 = 0" by (simp add: nth_append)
  from root_validity_propagation [OF le] obtain jv' where
    v: "propagate_root_validity ?jv = Inr jv'" and l: "length jv' = length ?jv"
    and a: "?jv ! 20 = 0 \<longrightarrow> (\<forall>i<21. jv' ! i = 0)"
    and b: "?jv ! 41 = 0 \<longrightarrow> (\<forall>i. 21 \<le> i \<and> i < length ?jv \<longrightarrow> jv' ! i = 0)"
    by blast
  have "\<forall>i<42. jv' ! i = 0"
  proof (intro allI impI)
    fix i :: nat assume i: "i < 42"
    show "jv' ! i = 0"
    proof (cases "i < 21")
      case True with a w20 show ?thesis by blast
    next
      case False
      then have "21 \<le> i \<and> i < length ?jv" using i len by simp
      with b w41 show ?thesis by blast
    qed
  qed
  then have "jv' = replicate 42 0"
    using l len by (intro nth_equalityI) auto
  with v le show ?thesis by simp
qed

lemma filter_zip_count:
  assumes "length outputs = length gts" "length masks = length gts"
  shows "length (filter (\<lambda>b. b) (map fst (filter snd
           (zip (map (\<lambda>(a, b). a \<and> b)
                   (map2 (\<lambda>out gt. (fst out = fst gt, snd out = snd gt)) outputs gts)) masks)))) =
         length (filter (\<lambda>(out, gt, v). v \<and> out = gt) (zip outputs (zip gts masks)))"
  using assms(1) assms(2) [symmetric]
proof (induction outputs gts masks rule: list_induct3)
  case Nil then show ?case by simp
next
  case (Cons x xs y ys z zs)
  then show ?case by (cases x; cases y) auto
qed

lemma selected_length:
  "length a = length m \<Longrightarrow>
   length (map fst (filter snd (zip a m))) = length (filter (\<lambda>v. v) m)"
  by (induction a m rule: list_induct2) auto

lemma get_accuracy_fraction:
  assumes "length outputs = length gts" "length masks = length gts" "True \<in> set masks"
  shows "get_accuracy outputs gts masks =
         Inr (Fin (fraction_correct_among_valid outputs gts masks))"
proof -
  let ?acc = "map (\<lambda>(a, b). a \<and> b)
                (map2 (\<lambda>out gt. (fst out = fst gt, snd out = snd gt)) outputs gts)"
  have la: "length ?acc = length masks" using assms by simp
  have ne: "filter (\<lambda>v. v) masks \<noteq> []"
    using assms(3) by (auto simp: filter_empty_conv)
  then have ne': "map fst (filter snd (zip ?acc masks)) \<noteq> []"
    using selected_length [OF la] by (metis length_0_conv)
  show ?thesis
    using assms la ne' filter_zip_count [OF assms(1,2)] selected_length [OF la]
    by (simp add: get_accuracy_def rows_equal_def bool_index_def np_mean_def
        fraction_correct_among_valid_def Let_def del: length_map length_filter_conv_card)
qed

lemma get_accuracy_nan:
  assumes "length outputs = length gts" "length masks = length gts" "True \<notin> set masks"
  shows "get_accuracy outputs gts masks = Inr NaN"
proof -
  have "filter snd (zip a masks) = []" for a :: "bool list"
    using assms(3) by (auto simp: filter_empty_conv dest: set_zip_rightD)
  then show ?thesis
    using assms by (simp add: get_accuracy_def rows_equal_def bool_index_def np_mean_def)
qed

lemma bindE_return [simp]: "bindE m Inr = m"
  by (cases m) simp_all

lemma traverse_all_Inr:
  "(\<And>x. x \<in> set xs \<Longrightarrow> f x = Inr (g x)) \<Longrightarrow> traverse f xs = Inr (map g xs)"
  by (induction xs) auto

lemma traverse_cases:
  "(\<And>x. x \<in> set xs \<Longrightarrow> f x = (if P x then Inr (g x) else Inl e)) \<Longrightarrow>
   traverse f xs = (if list_all P xs then Inr (map g xs) else Inl e)"
  by (induction xs) auto

lemma int_hand_type_cases:
  "int_hand_type t = (if hand_type_fits t then Inr (hand_type_ints t) else Inl OverflowError)"
  by (simp add: int_hand_type_def py_int_def hand_type_fits_def hand_type_ints_def)

lemma report_sample_handedness:
  "pred_hand_type p = Some t \<Longrightarrow>
   report_sample [''Handedness_acc''] n (p, i) =
   (if hand_type_fits t
    then Inr (None, None, Some (hand_type_ints t, hand_type i, 0 < hand_type_valid i))
    else Inl OverflowError)"
  by (simp add: report_sample_def only_if_def handedness_sample_def field_def
      int_hand_type_cases)

lemma map_filter_third:
  "List.map_filter (\<lambda>(r, j, h). h) (map (\<lambda>x. (None, None, Some (g x))) xs) = map g xs"
  by (induction xs) (auto simp: List.map_filter_simps)

lemma map_filter_first:
  "List.map_filter (\<lambda>(r, j, h). r) (map (\<lambda>x. (None, a x, b x)) xs) = []"
  by (induction xs) (auto simp: List.map_filter_simps)

lemma map_filter_second:
  "List.map_filter (\<lambda>(r, j, h). j) (map (\<lambda>x. (a x, None, b x)) xs) = []"
  by (induction xs) (auto simp: List.map_filter_simps)

lemma report_metric_handedness:
  assumes "fs res_file = Some ps" "length ps = length items"
    "map pred_hand_type ps = map Some hts"
  shows "report_metric epe items n fs res_file [''Handedness_acc''] =
         (if list_all hand_type_fits hts then
            bindE (stacked_accuracy (map hand_type_ints hts) (map hand_type items)
                     (map (\<lambda>i. 0 < hand_type_valid i) items))
              (\<lambda>v. Inr [(''Handedness_acc'', v)])
          else Inl OverflowError)"
proof -
  let ?t = "\<lambda>p. the (pred_hand_type p)"
  let ?g = "\<lambda>(p, i). (hand_type_ints (?t p), hand_type i, 0 < hand_type_valid i)"
  let ?P = "\<lambda>(p, i). hand_type_fits (?t p)"
  have some: "pred_hand_type p = Some (?t p)" if "p \<in> set ps" for p
  proof -
    from that obtain k where "k < length ps" "p = ps ! k"
      by (auto simp: in_set_conv_nth)
    moreover have "length hts = length ps"
      using assms(3) by (metis length_map)
    ultimately have "pred_hand_type p = Some (hts ! k)"
      using assms(3) by (metis nth_map)
    then show ?thesis by simp
  qed
  have tr: "traverse (report_sample [''Handedness_acc''] n) (zip ps items) =
            (if list_all ?P (zip ps items)
             then Inr (map (\<lambda>x. (None, None, Some (?g x))) (zip ps items))
             else Inl OverflowError)"
  proof (rule traverse_cases)
    fix x assume "x \<in> set (zip ps items)"
    then obtain p i where x: "x = (p, i)" and "p \<in> set ps"
      by (metis prod.exhaust set_zip_leftD)
    then show "report_sample [''Handedness_acc''] n x =
               (if ?P x then Inr (None, None, Some (?g x)) else Inl OverflowError)"
      using report_sample_handedness [OF some] by simp
  qed
  have lh: "length hts = length items"
    using assms(2,3) by (metis length_map)
  have the_ht: "map ?t ps = hts"
  proof -
    have "map ?t ps = map the (map pred_hand_type ps)"
      by simp
    also have "\<dots> = hts" unfolding assms(3) by (simp add: comp_def)
    finally show ?thesis .
  qed
  have fits: "list_all ?P (zip ps items) = list_all hand_type_fits hts"
  proof -
    have "list_all ?P (zip ps items) = list_all hand_type_fits (map ?t (map fst (zip ps items)))"
      by (simp add: list_all_iff split_beta)
    also have "map fst (zip ps items) = ps" using assms(2) by simp
    finally show ?thesis using the_ht by simp
  qed
  have p: "map (\<lambda>(p, g, m). p) (map ?g (zip ps items)) = map hand_type_ints hts"
  proof -
    have "map (\<lambda>(p, g, m). p) (map ?g (zip ps items)) =
          map (\<lambda>p. hand_type_ints (?t p)) (map fst (zip ps items))"
      by (simp add: split_beta comp_def)
    also have "\<dots> = map hand_type_ints (map ?t ps)"
      using assms(2) by (simp add: comp_def)
    finally show ?thesis using the_ht by simp
  qed
  have g: "map (\<lambda>(p, g, m). g) (map ?g (zip ps items)) = map hand_type items"
  proof -
    have "map (\<lambda>(p, g, m). g) (map ?g (zip ps items)) = map hand_type (map snd (zip ps items))"
      by (simp add: split_beta comp_def)
    then show ?thesis using assms(2) by simp
  qed
  have m: "map (\<lambda>(p, g, m). m) (map ?g (zip ps items)) = map (\<lambda>i. 0 < hand_type_valid i) items"
  proof -
    have "map (\<lambda>(p, g, m). m) (map ?g (zip ps items)) =
          map (\<lambda>i. 0 < hand_type_valid i) (map snd (zip ps items))"
      by (simp add: split_beta comp_def)
    then show ?thesis using assms(2) by simp
  qed
  show ?thesis
  proof (cases "list_all hand_type_fits hts")
    case True
    then have "traverse (report_sample [''Handedness_acc''] n) (zip ps items) =
               Inr (map (\<lambda>x. (None, None, Some (?g x))) (zip ps items))"
      using tr fits by simp
    then show ?thesis
      unfolding report_metric_def
      using assms(1,2) True
      by (simp add: open_json_def Let_def map_filter_first map_filter_second
          map_filter_third p g m del: map_map)
  next
    case False
    then have "traverse (report_sample [''Handedness_acc''] n) (zip ps items) = Inl OverflowError"
      using tr fits by simp
    then show ?thesis
      unfolding report_metric_def
      using assms(1,2) False
      by (simp add: open_json_def)
  qed
qed

text \<open>
  Claim C9.  When the results file holds one prediction per database record, each with
  a hand type, and at least one record has a valid handedness label, the reported
  Handedness_acc is the fraction, among the records with a valid label, of those whose
  predicted vector (converted to integers) equals the ground-truth vector in both
  components.  This holds whenever every predicted component fits a 64-bit integer, as
  the components 0 and 1 of a binary vector do; otherwise the conversion raises
  OverflowError.  The four samples of the specification give 0.75.
\<close>

theorem handedness_accuracy_is_fraction_of_valid:
  assumes "fs res_file = Some ps" "length ps = length items"
    "map pred_hand_type ps = map Some hts" "filter (\<lambda>i. 0 < hand_type_valid i) items \<noteq> []"
  shows "report_metric epe items n fs res_file [''Handedness_acc''] =
         (if list_all hand_type_fits hts then
            Inr [(''Handedness_acc'',
                  Fin (fraction_correct_among_valid (map hand_type_ints hts)
                         (map hand_type items) (map (\<lambda>i. 0 < hand_type_valid i) items)))]
          else Inl OverflowError)"
proof -
  have lh: "length hts = length items"
    using assms(2,3) by (metis length_map)
  have ne: "items \<noteq> []" using assms(4) by auto
  have v: "True \<in> set (map (\<lambda>i. 0 < hand_type_valid i) items)"
    using assms(4) by (auto simp: filter_empty_conv)
  have "stacked_accuracy (map hand_type_ints hts) (map hand_type items)
          (map (\<lambda>i. 0 < hand_type_valid i) items) =
        Inr (Fin (fraction_correct_among_valid (map hand_type_ints hts) (map hand_type items)
                    (map (\<lambda>i. 0 < hand_type_valid i) items)))"
    unfolding stacked_accuracy_def
    using lh ne get_accuracy_fraction [OF _ _ v, of "map hand_type_ints hts" "map hand_type items"]
    by auto
  then show ?thesis
    using assms(1,2,3)
      report_metric_handedness [where fs = fs and res_file = res_file and ps = ps
        and items = items and hts = hts and epe = epe and n = n]
    by simp
qed

theorem handedness_accuracy_is_fraction_of_valid_witness:
  "report_metric no_epe
     [example_item (1, 0) 1, example_item (0, 1) 1, example_item (1, 1) 1, example_item (1, 0) 1]
     42
     [''result_keypoints.json'' \<mapsto>
        [example_pred (1, 0), example_pred (0, 1), example_pred (1, 1), example_pred (0, 1)]]
     ''result_keypoints.json'' [''Handedness_acc''] =
   Inr [(''Handedness_acc'', Fin (3 / 4))]"
proof -
  let ?items = "[example_item (1, 0) 1, example_item (0, 1) 1, example_item (1, 1) 1,
                 example_item (1, 0) 1]"
  let ?ps = "[example_pred (1, 0), example_pred (0, 1), example_pred (1, 1), example_pred (0, 1)]"
  let ?fs = "[''result_keypoints.json'' \<mapsto> ?ps]"
  have a: "?fs ''result_keypoints.json'' = Some ?ps" by simp
  have b: "length ?ps = length ?items" by simp
  have c: "map pred_hand_type ?ps = map Some [(1, 0), (0, 1), (1, 1), (0, 1)]"
    by (simp add: example_pred_def)
  have d: "filter (\<lambda>i. 0 < hand_type_valid i) ?items \<noteq> []"
    by (simp add: example_item_def)
  show ?thesis
    using a b c d
      handedness_accuracy_is_fraction_of_valid [where fs = ?fs
        and res_file = "''result_keypoints.json''" and ps = ?ps and items = ?items
        and hts = "[(1, 0), (0, 1), (1, 1), (0, 1)]" and epe = no_epe and n = 42]
    by (simp add: fraction_correct_among_valid_def example_item_def hand_type_ints_def
        hand_type_fits_def trunc_int_def fits_int64_def)
qed

text \<open>
  Claim C3, as stated, fails: with one sample whose handedness label is not valid the
  mask selects nothing, and neither \<open>get_accuracy\<close> nor \<open>report_metric\<close> raises; the
  value is NaN.
\<close>

theorem zero_valid_samples_counterexample:
  "get_accuracy [(1, 0)] [(1, 0)] [False] = Inr NaN \<and>
   report_metric no_epe [example_item (1, 0) 0] 42
     [''result_keypoints.json'' \<mapsto> [example_pred (1, 0)]]
     ''result_keypoints.json'' [''Handedness_acc''] =
   Inr [(''Handedness_acc'', NaN)]"
proof -
  have a: "[''result_keypoints.json'' \<mapsto> [example_pred (1, 0)]] ''result_keypoints.json'' =
           Some [example_pred (1, 0)]" by simp
  have c: "map pred_hand_type [example_pred (1, 0)] = map Some [(1, 0)]"
    by (simp add: example_pred_def)
  have g: "get_accuracy [(1, 0)] [(1, 0)] [False] = Inr NaN"
    by (simp add: get_accuracy_def rows_equal_def bool_index_def np_mean_def)
  show ?thesis
    using g a c
      report_metric_handedness [where fs = "[''result_keypoints.json'' \<mapsto> [example_pred (1, 0)]]"
        and res_file = "''result_keypoints.json''" and ps = "[example_pred (1, 0)]"
        and items = "[example_item (1, 0) 0]" and hts = "[(1, 0)]" and epe = no_epe and n = 42]
    by (simp add: stacked_accuracy_def example_item_def hand_type_ints_def
        hand_type_fits_def trunc_int_def fits_int64_def)
qed

text \<open>
  Claim C3, amended.  When there is at least one sample and no sample has a valid
  handedness label, the handedness-accuracy computation does not raise for the empty
  selection: the accuracy is NaN, the mean of an empty selection, and it is reported
  as Handedness_acc whenever every predicted component fits a 64-bit integer, as the
  components of a binary vector do (otherwise the conversion of the prediction raises
  OverflowError).
\<close>

theorem zero_valid_samples_give_nan:
  assumes "fs res_file = Some ps" "length ps = length items" "items \<noteq> []"
    "map pred_hand_type ps = map Some hts" "filter (\<lambda>i. 0 < hand_type_valid i) items = []"
  shows "get_accuracy (map hand_type_ints hts) (map hand_type items)
           (map (\<lambda>i. 0 < hand_type_valid i) items) = Inr NaN \<and>
         report_metric epe items n fs res_file [''Handedness_acc''] =
           (if list_all hand_type_fits hts then Inr [(''Handedness_acc'', NaN)]
            else Inl OverflowError)"
proof -
  have lh: "length hts = length items"
    using assms(2,4) by (metis length_map)
  have v: "True \<notin> set (map (\<lambda>i. 0 < hand_type_valid i) items)"
    using assms(5) by (auto simp: filter_empty_conv)
  have g: "get_accuracy (map hand_type_ints hts) (map hand_type items)
             (map (\<lambda>i. 0 < hand_type_valid i) items) = Inr NaN"
    using lh get_accuracy_nan [OF _ _ v, of "map hand_type_ints hts" "map hand_type items"]
    by auto
  have "hts \<noteq> []" using assms(3) lh by auto
  with g show ?thesis
    using assms(1,2,3,4) lh
      report_metric_handedness [where fs = fs and res_file = res_file and ps = ps
        and items = items and hts = hts and epe = epe and n = n]
    by (simp add: stacked_accuracy_def)
qed

theorem zero_valid_samples_give_nan_witness:
  "get_accuracy [(1, 0), (0, 1)] [(1, 0), (1, 1)] [False, False] = Inr NaN \<and>
   report_metric no_epe [example_item (1, 0) 0, example_item (1, 1) 0] 42
     [''result_keypoints.json'' \<mapsto> [example_pred (1, 0), example_pred (0, 1)]]
     ''result_keypoints.json'' [''Handedness_acc''] =
   Inr [(''Handedness_acc'', NaN)]"
proof -
  let ?items = "[example_item (1, 0) 0, example_item (1, 1) 0]"
  let ?ps = "[example_pred (1, 0), example_pred (0, 1)]"
  let ?fs = "[''result_keypoints.json'' \<mapsto> ?ps]"
  have a: "?fs ''result_keypoints.json'' = Some ?ps" by simp
  have b: "length ?ps = length ?items" by simp
  have c: "?items \<noteq> []" by simp
  have d: "map pred_hand_type ?ps = map Some [(1, 0), (0, 1)]"
    by (simp add: example_pred_def)
  have e: "filter (\<lambda>i. 0 < hand_type_valid i) ?items = []"
    by (simp add: example_item_def)
  show ?thesis
    using a b c d e
      zero_valid_samples_give_nan [where fs = ?fs and res_file = "''result_keypoints.json''"
        and ps = ?ps and items = ?items and hts = "[(1, 0), (0, 1)]" and epe = no_epe and n = 42]
    by (simp add: example_item_def hand_type_ints_def hand_type_fits_def trunc_int_def
        fits_int64_def)
qed

text \<open>
  Claim C10.  When the results file holds a number of predictions other than the
  number of database records, metric reporting fails with an AssertionError, whatever
  the requested metrics and whatever \<open>keypoint_epe\<close> would compute.
\<close>

theorem report_metric_requires_equal_lengths:
  assumes "fs res_file = Some ps" "length ps \<noteq> length items"
  shows "report_metric epe items n fs res_file metrics = Inl AssertionError"
  using assms by (simp add: report_metric_def open_json_def)

theorem report_metric_requires_equal_lengths_witness:
  "[''result_keypoints.json'' \<mapsto> [example_pred (1, 0), example_pred (1, 0)]]
     ''result_keypoints.json'' = Some [example_pred (1, 0), example_pred (1, 0)] \<and>
   length [example_pred (1, 0), example_pred (1, 0)] \<noteq> length [example_item (1, 0) 1] \<and>
   report_metric no_epe [example_item (1, 0) 1] 42
     [''result_keypoints.json'' \<mapsto> [example_pred (1, 0), example_pred (1, 0)]]
     ''result_keypoints.json'' [''MPJPE'', ''Handedness_acc''] = Inl AssertionError"
proof -
  let ?ps = "[example_pred (1, 0), example_pred (1, 0)]"
  have a: "[''result_keypoints.json'' \<mapsto> ?ps] ''result_keypoints.json'' = Some ?ps" by simp
  have b: "length ?ps \<noteq> length [example_item (1, 0) 1]" by simp
  show ?thesis
    using a b
      report_metric_requires_equal_lengths [where fs = "[''result_keypoints.json'' \<mapsto> ?ps]"
        and res_file = "''result_keypoints.json''" and ps = ?ps
        and items = "[example_item (1, 0) 1]" and epe = no_epe and n = 42
        and metrics = "[''MPJPE'', ''Handedness_acc'']"]
    by simp
qed

text \<open>
  Claim C8.  When a requested metric name is not one of MRRPE, MPJPE and
  Handedness_acc, \<open>evaluate\<close> raises KeyError and leaves the files as they were,
  whatever the outputs, the dataset, its writer of the results file and
  \<open>keypoint_epe\<close> are.
\<close>

theorem evaluate_rejects_unsupported_metric:
  assumes "m \<in> set (case metric of Names ms \<Rightarrow> ms | Name m' \<Rightarrow> [m'])"
    "m \<notin> set allowed_metrics"
  shows "evaluate epe self outputs res_folder metric fs = (Inl KeyError, fs)"
proof -
  have "filter (\<lambda>m. m \<notin> set allowed_metrics)
          (case metric of Names ms \<Rightarrow> ms | Name m' \<Rightarrow> [m']) \<noteq> []"
    using assms by (auto simp: filter_empty_conv)
  then show ?thesis by (simp add: evaluate_def Let_def)
qed

theorem evaluate_rejects_unsupported_metric_witness:
  "''PCK'' \<in> set (case Names [''MPJPE'', ''PCK''] of Names ms \<Rightarrow> ms | Name m' \<Rightarrow> [m']) \<and>
   ''PCK'' \<notin> set allowed_metrics \<and>
   evaluate no_epe example_base [] ''work_dir'' (Names [''MPJPE'', ''PCK'']) Map.empty =
     (Inl KeyError, Map.empty)"
proof -
  have a: "''PCK'' \<in> set (case Names [''MPJPE'', ''PCK''] of Names ms \<Rightarrow> ms | Name m' \<Rightarrow> [m'])"
    by simp
  have b: "''PCK'' \<notin> set allowed_metrics" by (simp add: allowed_metrics_def)
  show ?thesis
    using a b
      evaluate_rejects_unsupported_metric [where m = "''PCK''"
        and metric = "Names [''MPJPE'', ''PCK'']" and epe = no_epe and self = example_base
        and outputs = "[]" and res_folder = "''work_dir''" and fs = Map.empty]
    by simp
qed

lemma round_trip_nth:
  assumes "i < length cam" "cam ! i = (x, y, z)"
  shows "pixel2cam (with_depth (cam2pixel cam f c) cam) f c ! i =
         ((x / (z + 1 / 10 ^ 8) * fst f + fst c - fst c) / fst f * z,
          (y / (z + 1 / 10 ^ 8) * snd f + snd c - snd c) / snd f * z,
          z)"
  using assms by (simp add: pixel2cam_def with_depth_def cam2pixel_def)

lemma shrink_bound:
  fixes x z :: real
  assumes "0 < z"
  shows "\<bar>x * z / (z + 1 / 10 ^ 8) - x\<bar> \<le> \<bar>x\<bar> / (10 ^ 8 * z)"
proof -
  have pos: "0 < z + 1 / 10 ^ 8" using assms by (simp add: add_pos_pos)
  have "x * z / (z + 1 / 10 ^ 8) - x = - (x * (1 / 10 ^ 8)) / (z + 1 / 10 ^ 8)"
    using pos by (simp add: field_simps)
  then have "\<bar>x * z / (z + 1 / 10 ^ 8) - x\<bar> = \<bar>x\<bar> * (1 / 10 ^ 8) / (z + 1 / 10 ^ 8)"
    using pos by (simp add: abs_mult)
  also have "\<dots> \<le> \<bar>x\<bar> * (1 / 10 ^ 8) / z"
    using assms pos by (intro divide_left_mono) (simp_all add: mult_pos_pos)
  also have "\<dots> = \<bar>x\<bar> / (10 ^ 8 * z)" by simp
  finally show ?thesis .
qed

text \<open>
  Claim C5, as stated, fails: a joint at camera-space (1, 1, 0), seen with focal length
  (1, 1) and principal point (0, 0), projects to the pixel (10^8, 10^8) and comes back,
  with its depth 0 carried beside the projection, as (0, 0, 0).
\<close>

theorem round_trip_counterexample:
  "world2cam [(1, 1, 0)] ((1, 0, 0), (0, 1, 0), (0, 0, 1)) (0, 0, 0) = [(1, 1, 0)] \<and>
   pixel2cam (with_depth (cam2pixel [(1, 1, 0)] (1, 1) (0, 0)) [(1, 1, 0)]) (1, 1) (0, 0) =
     [(0, 0, 0)]"
  by (simp add: world2cam_def dot3_def pixel2cam_def with_depth_def cam2pixel_def)

text \<open>
  Claim C5, amended.  For nonzero focal lengths and a joint whose camera-space depth z
  has z + 1e-8 nonzero, world to camera, camera to pixel and, with z carried beside
  the projection, pixel to camera returns (x z / (z + 1e-8), y z / (z + 1e-8), z) in
  exact arithmetic; for positive z this is within |x| / (1e8 z) of x and within
  |y| / (1e8 z) of y.
\<close>

theorem round_trip_up_to_epsilon:
  assumes "fst f \<noteq> 0" "snd f \<noteq> 0" "cam = world2cam world R T"
    "i < length cam" "cam ! i = (x, y, z)" "z + 1 / 10 ^ 8 \<noteq> 0"
  shows "\<exists>x' y'. pixel2cam (with_depth (cam2pixel cam f c) cam) f c ! i = (x', y', z) \<and>
           x' = x * z / (z + 1 / 10 ^ 8) \<and> y' = y * z / (z + 1 / 10 ^ 8) \<and>
           (0 < z \<longrightarrow> \<bar>x' - x\<bar> \<le> \<bar>x\<bar> / (10 ^ 8 * z) \<and> \<bar>y' - y\<bar> \<le> \<bar>y\<bar> / (10 ^ 8 * z))"
proof -
  have "pixel2cam (with_depth (cam2pixel cam f c) cam) f c ! i =
        (x * z / (z + 1 / 10 ^ 8), y * z / (z + 1 / 10 ^ 8), z)"
    using assms(1,2) round_trip_nth [OF assms(4,5), of f c] by simp
  then show ?thesis
    using shrink_bound [of z x] shrink_bound [of z y] by simp
qed

theorem round_trip_up_to_epsilon_witness:
  "pixel2cam (with_depth
      (cam2pixel (world2cam [(3, 4, 2)] ((1, 0, 0), (0, 1, 0), (0, 0, 1)) (1, 1, 1)) (2, 2) (5, 5))
      (world2cam [(3, 4, 2)] ((1, 0, 0), (0, 1, 0), (0, 0, 1)) (1, 1, 1))) (2, 2) (5, 5) ! 0 =
   (2 * 1 / (1 + 1 / 10 ^ 8), 3 * 1 / (1 + 1 / 10 ^ 8), 1)"
proof -
  let ?cam = "world2cam [(3, 4, 2)] ((1, 0, 0), (0, 1, 0), (0, 0, 1)) (1, 1, 1)"
  have cam: "?cam = [(2, 3, 1)]" by (simp add: world2cam_def dot3_def)
  have a: "fst (2::real, 2::real) \<noteq> 0" "snd (2::real, 2::real) \<noteq> 0" by simp_all
  have b: "0 < length ?cam" "?cam ! 0 = (2, 3, 1)" using cam by simp_all
  have c: "(1::real) + 1 / 10 ^ 8 \<noteq> 0" by simp
  from round_trip_up_to_epsilon [OF a refl b c, of "(5, 5)"]
  show ?thesis by auto
qed

lemma bindE_fails:
  "(\<And>x. m = Inr x \<Longrightarrow> \<exists>e. f x = Inl e) \<Longrightarrow> \<exists>e. bindE m f = Inl e"
  by (cases m) auto

lemma mrrpe_valid_eq:
  assumes "41 < length (joints_3d_visible item)"
  shows "mrrpe_valid item =
         Inr (all_nonzero (hand_type item) \<and> column (joints_3d_visible item ! 20) 0 \<noteq> 0 \<and>
              column (joints_3d_visible item ! 41) 0 \<noteq> 0)"
  using assms by (simp add: mrrpe_valid_def entry_def)

lemma mrrpe_sample_selected:
  assumes "mrrpe_valid item = Inr True"
  shows "\<exists>e. mrrpe_sample pred item = Inl e"
  unfolding mrrpe_sample_def
  using assms
  apply simp
  apply (intro bindE_fails | simp add: split_beta pixel2cam_1d_def)+
  done

lemma mrrpe_sample_masked:
  assumes "mrrpe_valid item = Inr False"
  shows "mrrpe_sample pred item = Inr (False, [(0, 0, 0)], [(0, 0, 0)])"
  using assms by (simp add: mrrpe_sample_def)

lemma map_filter_mrrpe:
  "List.map_filter (\<lambda>(r, j, h). r) (map (\<lambda>x. (Some v, None, None)) xs) =
   replicate (length xs) v"
  by (induction xs) (auto simp: List.map_filter_simps)

lemma map_filter_none2:
  "List.map_filter (\<lambda>(r, j, h). j) (map (\<lambda>x. (Some v, None, None)) xs) = []"
  by (induction xs) (auto simp: List.map_filter_simps)

lemma map_filter_none3:
  "List.map_filter (\<lambda>(r, j, h). h) (map (\<lambda>x. (Some v, None, None)) xs) = []"
  by (induction xs) (auto simp: List.map_filter_simps)

text \<open>
  Claim C4, as stated, fails: a record with hand_type_valid = 0 that is interacting and
  has both wrists visible passes the test of the MRRPE block, so it does not contribute
  the zero placeholder with mask False.
\<close>

theorem mrrpe_mask_counterexample:
  "hand_type_valid (example_item (1, 1) 0) = 0 \<and>
   mrrpe_valid (example_item (1, 1) 0) = Inr True \<and>
   mrrpe_sample (example_pred (1, 1)) (example_item (1, 1) 0) \<noteq>
     Inr (False, [(0, 0, 0)], [(0, 0, 0)])"
  by (simp add: example_item_def example_pred_def mrrpe_valid_def mrrpe_sample_def
      entry_def column_def all_nonzero_def field_def row_def pixel2cam_1d_def)

text \<open>
  Claim C4, amended.  A sample contributes the zero placeholder with mask False
  exactly when its ground-truth hand type is not interacting or one of its two wrist
  visibility flags is 0; hand_type_valid is not consulted.  When every sample is of
  that kind, \<open>keypoint_epe\<close> is called once, with zero placeholders only and a mask
  that is False everywhere, and its value is reported as MRRPE.
\<close>

theorem mrrpe_mask:
  assumes "41 < length (joints_3d_visible item)"
  shows "(mrrpe_sample pred item = Inr (False, [(0, 0, 0)], [(0, 0, 0)])) =
           (\<not> (all_nonzero (hand_type item) \<and> column (joints_3d_visible item ! 20) 0 \<noteq> 0 \<and>
               column (joints_3d_visible item ! 41) 0 \<noteq> 0)) \<and>
         mrrpe_sample pred (item\<lparr>hand_type_valid := v\<rparr>) = mrrpe_sample pred item \<and>
         (fs res_file = Some ps \<and> length ps = length items \<and>
          filter (\<lambda>i. mrrpe_valid i \<noteq> Inr False) items = [] \<longrightarrow>
          report_metric epe items n fs res_file [''MRRPE''] =
            bindE (epe (replicate (length items) [(0, 0, 0)])
                       (replicate (length items) [(0, 0, 0)])
                       (Mask1 (replicate (length items) False)))
              (\<lambda>e. Inr [(''MRRPE'', e)]))"
proof (intro conjI impI)
  let ?c = "all_nonzero (hand_type item) \<and> column (joints_3d_visible item ! 20) 0 \<noteq> 0 \<and>
            column (joints_3d_visible item ! 41) 0 \<noteq> 0"
  show "(mrrpe_sample pred item = Inr (False, [(0, 0, 0)], [(0, 0, 0)])) = (\<not> ?c)"
  proof (cases ?c)
    case True
    then have "mrrpe_valid item = Inr True"
      using mrrpe_valid_eq [OF assms] by simp
    then obtain e where "mrrpe_sample pred item = Inl e"
      using mrrpe_sample_selected by blast
    with True show ?thesis by simp
  next
    case False
    then have "mrrpe_valid item = Inr False"
      using mrrpe_valid_eq [OF assms] by simp
    with False show ?thesis using mrrpe_sample_masked by simp
  qed
next
  show "mrrpe_sample pred (item\<lparr>hand_type_valid := v\<rparr>) = mrrpe_sample pred item"
    by (simp add: mrrpe_sample_def mrrpe_valid_def cong: if_cong)
next
  assume h: "fs res_file = Some ps \<and> length ps = length items \<and>
             filter (\<lambda>i. mrrpe_valid i \<noteq> Inr False) items = []"
  let ?v = "(False, [(0::real, 0::real, 0::real)], [(0::real, 0::real, 0::real)])"
  have tr: "traverse (report_sample [''MRRPE''] n) (zip ps items) =
            Inr (map (\<lambda>x. (Some ?v, None, None)) (zip ps items))"
  proof (rule traverse_all_Inr)
    fix x assume "x \<in> set (zip ps items)"
    then obtain p i where x: "x = (p, i)" and "i \<in> set items"
      by (metis prod.exhaust set_zip_rightD)
    then have "mrrpe_valid i = Inr False"
      using h by (auto simp: filter_empty_conv)
    then show "report_sample [''MRRPE''] n x = Inr (Some ?v, None, None)"
      using x by (simp add: report_sample_def only_if_def mrrpe_sample_masked)
  qed
  have len: "length (zip ps items) = length items" using h by simp
  show "report_metric epe items n fs res_file [''MRRPE''] =
          bindE (epe (replicate (length items) [(0, 0, 0)])
                     (replicate (length items) [(0, 0, 0)])
                     (Mask1 (replicate (length items) False)))
            (\<lambda>e. Inr [(''MRRPE'', e)])"
    unfolding report_metric_def
    using h
    by (simp add: open_json_def tr Let_def map_filter_mrrpe map_filter_none2
        map_filter_none3 len del: map_map)
qed

lemma rows_column_3: "rows_column rs 3 = Inl IndexError"
  by (simp add: rows_column_def)

lemma get_db_record_fails:
  "\<exists>e. get_db_record self cameras joints rootnet_result (k, i) = Inl e"
  unfolding get_db_record_def Let_def prod.case
  apply (intro bindE_fails conjI impI | simp add: split_beta rows_column_3)+
  done

lemma example_joint_cam:
  "world2cam (replicate 42 (0, 0, 1)) ((1, 0, 0), (0, 1, 0), (0, 0, 1)) (0, 0, 0) =
   replicate 42 (0, 0, 1)"
  by (simp add: world2cam_def dot3_def)

lemma example_propagate:
  "propagate_root_validity (replicate 42 1) = Inr (replicate 42 1)"
  by code_simp

lemma example_record_gt:
  "get_db_record
     (example_base\<lparr>dataset_name := ''interhand3d'', camera_file := ''cameras.json'',
        joint_file := ''joints.json'', use_gt_root_depth := True,
        rootnet_result_file := Some ''rootnet.json''\<rparr>)
     (the (camera_files example_files ''cameras.json''))
     (the (joint_files example_files ''joints.json''))
     rr (0, 7) = Inl IndexError"
  by (simp add: get_db_record_def example_base_def example_files_def lookup_def row_def
      example_joint_cam example_propagate process_handtype_def xywh_def entry_def column_def
      assign_xy_def cam2pixel_def rows_column_3 Let_def)

lemma example_record_external:
  "get_db_record
     (example_base\<lparr>dataset_name := ''interhand3d'', camera_file := ''cameras.json'',
        joint_file := ''joints.json'', use_gt_root_depth := False\<rparr>)
     (the (camera_files example_files ''cameras.json''))
     (the (joint_files example_files ''joints.json''))
     None (0, 7) = Inl NameError"
  by (simp add: get_db_record_def example_base_def example_files_def lookup_def row_def
      example_joint_cam process_handtype_def bound_def Let_def)

text \<open>
  Claim C1 does not hold of the code: the construction of a record returns an
  exception for every image, camera table, joint table and configuration, and on the
  example dataset with ground-truth root depth it is the IndexError of
  \<^verbatim>\<open>joint_cam[:21, 3]\<close>.
\<close>

theorem record_construction_never_completes:
  "(\<exists>e. get_db_record self cameras joints rootnet_result (k, i) = Inl e) \<and>
   init example_base ''cameras.json'' ''joints.json'' True (Some ''rootnet.json'') example_files =
     Inl IndexError"
proof
  show "\<exists>e. get_db_record self cameras joints rootnet_result (k, i) = Inl e"
    by (rule get_db_record_fails)
next
  have "enumerate 0 [7::nat] = [(0, 7)]" by (simp add: enumerate_eq_zip)
  then show "init example_base ''cameras.json'' ''joints.json'' True (Some ''rootnet.json'')
          example_files = Inl IndexError"
    using example_record_gt
    by (simp add: init_def get_db_def open_json_def attribute_def Let_def
        example_base_def example_files_def)
qed

theorem mrrpe_mask_witness:
  "41 < length (joints_3d_visible (example_item (1, 0) 1)) \<and>
   mrrpe_sample (example_pred (1, 0)) (example_item (1, 0) 1) =
     Inr (False, [(0, 0, 0)], [(0, 0, 0)]) \<and>
   report_metric (\<lambda>p g m. Inr (Fin 0)) [example_item (1, 0) 1] 42
     [''result_keypoints.json'' \<mapsto> [example_pred (1, 0)]]
     ''result_keypoints.json'' [''MRRPE''] = Inr [(''MRRPE'', Fin 0)]"
proof -
  let ?item = "example_item (1, 0) 1"
  let ?ps = "[example_pred (1, 0)]"
  have a: "41 < length (joints_3d_visible ?item)" by (simp add: example_item_def)
  have b: "[''result_keypoints.json'' \<mapsto> ?ps] ''result_keypoints.json'' = Some ?ps" by simp
  have c: "filter (\<lambda>i. mrrpe_valid i \<noteq> Inr False) [?item] = []"
    by (simp add: mrrpe_valid_def example_item_def all_nonzero_def)
  have d: "\<not> all_nonzero (hand_type ?item)"
    by (simp add: example_item_def all_nonzero_def)
  show ?thesis
    using a b c d
      mrrpe_mask [where item = ?item and pred = "example_pred (1, 0)" and v = 0
        and fs = "[''result_keypoints.json'' \<mapsto> ?ps]"
        and res_file = "''result_keypoints.json''" and ps = ?ps and items = "[?item]"
        and epe = "\<lambda>p g m. Inr (Fin 0)" and n = 42]
    by simp
qed

text \<open>
  Claim C2 does not hold of the code: with ground-truth root depth the constructor
  demands the file of root-depth estimates and \<open>get_db\<close> opens it; with the external
  estimator the file is never read, whatever it holds, and the first record fails on
  the unassigned table.
\<close>

theorem rootnet_table_loaded_in_the_other_configuration:
  "init base cam_path joint_path True None fs = Inl AssertionError \<and>
   get_db (self\<lparr>use_gt_root_depth := False\<rparr>) (fs\<lparr>rootnet_files := t\<rparr>) =
     get_db (self\<lparr>use_gt_root_depth := False\<rparr>) fs \<and>
   init example_base ''cameras.json'' ''joints.json'' False (Some ''rootnet.json'')
     example_files = Inl NameError \<and>
   init example_base ''cameras.json'' ''joints.json'' True (Some ''missing.json'')
     example_files = Inl OSError"
proof (intro conjI)
  show "init base cam_path joint_path True None fs = Inl AssertionError"
    by (simp add: init_def Let_def)
next
  show "get_db (self\<lparr>use_gt_root_depth := False\<rparr>) (fs\<lparr>rootnet_files := t\<rparr>) =
        get_db (self\<lparr>use_gt_root_depth := False\<rparr>) fs"
    by (simp add: get_db_def)
next
  have "enumerate 0 [7::nat] = [(0, 7)]" by (simp add: enumerate_eq_zip)
  then show "init example_base ''cameras.json'' ''joints.json'' False (Some ''rootnet.json'')
          example_files = Inl NameError"
    using example_record_external
    by (simp add: init_def get_db_def open_json_def Let_def example_base_def example_files_def)
next
  show "init example_base ''cameras.json'' ''joints.json'' True (Some ''missing.json'')
          example_files = Inl OSError"
    by (simp add: init_def get_db_def open_json_def attribute_def Let_def
        example_base_def example_files_def)
qed

end
